theory Spec2Isabelle
  imports Main "HOL-Library.Word"
begin

section \<open>Data model\<close>

unbundle bit_operations_syntax

text \<open>
  Go's \<open>int64\<close> is a 64-bit word whose \<open>+\<close> wraps around. A \<open>float64\<close> is
  carried as its IEEE-754 bit pattern: the storage only copies gauge values, it never
  computes with them, and the zero value \<open>0.0\<close> is the all-zero pattern.
  A byte slice read from or written to a file is a \<open>string\<close>.
\<close>

type_synonym int64 = "64 word"
type_synonym float64 = "64 word"
type_synonym bytes = string

text \<open>
  Modelled from the spec: the declaration of \<open>models.Metrics\<close> is not among the sources.
  Its fields are the ones the sources read and write (\<open>ID\<close>, \<open>MType\<close>, \<open>Delta\<close>,
  \<open>Value\<close>) and the spec's record shape
  \<open>{id: string, type: "gauge"|"counter", value?: number, delta?: integer}\<close>.
  The two pointer fields \<open>*int64\<close> and \<open>*float64\<close> are options, \<open>None\<close> for \<open>nil\<close>.
\<close>

record Metrics =
  ID :: string
  MType :: string
  Delta :: "int64 option"
  Value :: "float64 option"

text \<open>
  Go errors as values. \<open>ErrNotExist\<close> stands for every error \<open>err\<close> with
  \<open>errors.Is(err, os.ErrNotExist)\<close>; \<open>ErrStatus c\<close> is
  \<open>fmt.Errorf("audit sink HTTP status %d", c)\<close>; \<open>ErrOther\<close> is any other error of the
  operating system or of the JSON codec, with its message. A Go \<open>error\<close> result is an
  \<open>error option\<close>, \<open>None\<close> for \<open>nil\<close>.
\<close>

datatype error = ErrNotExist | ErrStatus int | ErrOther string

section \<open>The in-memory storage (package repository)\<close>

text \<open>
  \<open>MemStorage\<close> holds the two maps. Every method takes the mutex \<open>mu\<close> for its whole
  body, so each method is one atomic state transformer and the mutex is not a field of
  the model. The \<open>context.Context\<close> argument is ignored by every method and left out.
\<close>

record MemStorage =
  gauges :: "string \<rightharpoonup> float64"
  counters :: "string \<rightharpoonup> int64"

definition NewMemStorage :: MemStorage where
  "NewMemStorage = \<lparr>gauges = Map.empty, counters = Map.empty\<rparr>"

text \<open>Reading a Go map at an absent key gives the zero value of the value type.\<close>

definition counter_or_zero :: "(string \<rightharpoonup> int64) \<Rightarrow> string \<Rightarrow> int64" where
  "counter_or_zero m name = (case m name of None \<Rightarrow> 0 | Some old \<Rightarrow> old)"

text \<open>\<open>s.gauges[name] = value\<close>\<close>

definition UpdateGauge :: "MemStorage \<Rightarrow> string \<Rightarrow> float64 \<Rightarrow> MemStorage" where
  "UpdateGauge s name val = s\<lparr>gauges := (gauges s)(name \<mapsto> val)\<rparr>"

text \<open>\<open>s.counters[name] += value\<close>\<close>

definition UpdateCounter :: "MemStorage \<Rightarrow> string \<Rightarrow> int64 \<Rightarrow> MemStorage" where
  "UpdateCounter s name val =
     s\<lparr>counters := (counters s)(name \<mapsto> counter_or_zero (counters s) name + val)\<rparr>"

text \<open>\<open>val, ok := s.gauges[name]; return val, ok\<close>\<close>

definition GetGauge :: "MemStorage \<Rightarrow> string \<Rightarrow> float64 \<times> bool" where
  "GetGauge s name = (case gauges s name of None \<Rightarrow> (0, False) | Some val \<Rightarrow> (val, True))"

definition GetCounter :: "MemStorage \<Rightarrow> string \<Rightarrow> int64 \<times> bool" where
  "GetCounter s name = (case counters s name of None \<Rightarrow> (0, False) | Some val \<Rightarrow> (val, True))"

text \<open>
  The loop of \<open>UpdateBatch\<close>: a \<open>switch\<close> on \<open>met.MType\<close> with the cases
  \<open>"gauge"\<close> and \<open>"counter"\<close> and no default; \<open>continue\<close> on a nil field.
\<close>

fun UpdateBatch_loop :: "MemStorage \<Rightarrow> Metrics list \<Rightarrow> MemStorage" where
  "UpdateBatch_loop s [] = s"
| "UpdateBatch_loop s (met # batch) =
     (if MType met = ''gauge'' then
        (case Value met of
           None \<Rightarrow> UpdateBatch_loop s batch
         | Some v \<Rightarrow> UpdateBatch_loop (s\<lparr>gauges := (gauges s)(ID met \<mapsto> v)\<rparr>) batch)
      else if MType met = ''counter'' then
        (case Delta met of
           None \<Rightarrow> UpdateBatch_loop s batch
         | Some d \<Rightarrow>
             UpdateBatch_loop
               (s\<lparr>counters := (counters s)(ID met \<mapsto> counter_or_zero (counters s) (ID met) + d)\<rparr>)
               batch)
      else UpdateBatch_loop s batch)"

text \<open>\<open>UpdateBatch\<close> returns the error (always \<open>nil\<close>) and the storage it leaves.\<close>

definition UpdateBatch :: "MemStorage \<Rightarrow> Metrics list \<Rightarrow> error option \<times> MemStorage" where
  "UpdateBatch s batch = (None, UpdateBatch_loop s batch)"

section \<open>Persistence of the storage (package repository)\<close>

text \<open>
  The file system as \<open>os.ReadFile\<close> sees it: for every path, the error or the content.
\<close>

type_synonym filesystem = "string \<Rightarrow> error + bytes"

definition ReadFile :: "filesystem \<Rightarrow> string \<Rightarrow> error + bytes" where
  "ReadFile fs filename = fs filename"


text \<open>
  \<open>encoding/json\<close> belongs to Go's standard library, not to the repository: the two
  functions the storage calls are parameters of the model.
\<close>

record json_codec =
  MarshalIndent :: "Metrics list \<Rightarrow> error + bytes"
  Unmarshal :: "bytes \<Rightarrow> error + Metrics list"












text \<open>The two record literals that \<open>SaveToFile\<close> appends.\<close>

definition gauge_record :: "string \<times> float64 \<Rightarrow> Metrics" where
  "gauge_record e = \<lparr>ID = fst e, MType = ''gauge'', Delta = None, Value = Some (snd e)\<rparr>"

definition counter_record :: "string \<times> int64 \<Rightarrow> Metrics" where
  "counter_record e = \<lparr>ID = fst e, MType = ''counter'', Delta = Some (snd e), Value = None\<rparr>"



text \<open>
  The loop of \<open>LoadFromFile\<close>: gauge records with a value and counter records with a
  delta are stored by plain assignment; every other record is passed over.
\<close>

fun LoadFromFile_loop :: "MemStorage \<Rightarrow> Metrics list \<Rightarrow> MemStorage" where
  "LoadFromFile_loop s [] = s"
| "LoadFromFile_loop s (mtr # metrics) =
     (if MType mtr = ''gauge'' then
        (case Value mtr of
           None \<Rightarrow> LoadFromFile_loop s metrics
         | Some v \<Rightarrow> LoadFromFile_loop (s\<lparr>gauges := (gauges s)(ID mtr \<mapsto> v)\<rparr>) metrics)
      else if MType mtr = ''counter'' then
        (case Delta mtr of
           None \<Rightarrow> LoadFromFile_loop s metrics
         | Some d \<Rightarrow> LoadFromFile_loop (s\<lparr>counters := (counters s)(ID mtr \<mapsto> d)\<rparr>) metrics)
      else LoadFromFile_loop s metrics)"

text \<open>
  \<open>LoadFromFile\<close> returns the error and the storage it leaves: a missing file is not an
  error, any other read error and a decoding error are returned before the loop runs.
\<close>

definition LoadFromFile ::
  "json_codec \<Rightarrow> MemStorage \<Rightarrow> filesystem \<Rightarrow> string \<Rightarrow> error option \<times> MemStorage"
where
  "LoadFromFile codec s fs filename =
     (case ReadFile fs filename of
        Inl err \<Rightarrow> if err = ErrNotExist then (None, s) else (Some err, s)
      | Inr data \<Rightarrow>
          (case Unmarshal codec data of
             Inl err \<Rightarrow> (Some err, s)
           | Inr metrics \<Rightarrow> (None, LoadFromFile_loop s metrics)))"

section \<open>Audit events and sinks (package audit)\<close>

record Event =
  TS :: int64
  Metrics :: "string list"
  IPAddress :: string

text \<open>
  A \<open>Sink\<close> is anything with a \<open>Send\<close> method: it acts on the world outside the
  process (a network peer, a file, a channel) of some type \<open>'w\<close> and returns an error or
  \<open>nil\<close>. The injected clock \<open>now\<close> is read through the same world, so that reading
  it is visible; its result is already \<open>now().Unix()\<close>.
\<close>

type_synonym 'w Sink = "Event \<Rightarrow> 'w \<Rightarrow> error option \<times> 'w"
type_synonym 'w clock = "'w \<Rightarrow> int64 \<times> 'w"

record 'w Auditor =
  sinks :: "'w Sink list"

text \<open>A \<open>*Auditor\<close> may be \<open>nil\<close>: \<open>None\<close>.\<close>

definition New :: "'w Sink list \<Rightarrow> 'w Auditor option" where
  "New ss = Some \<lparr>sinks = ss\<rparr>"

definition Enabled :: "'w Auditor option \<Rightarrow> bool" where
  "Enabled a = (case a of None \<Rightarrow> False | Some au \<Rightarrow> length (sinks au) > 0)"

text \<open>\<open>for _, s := range a.sinks { _ = s.Send(ctx, ev) }\<close>: the error is dropped.\<close>

fun Notify_loop :: "'w Sink list \<Rightarrow> Event \<Rightarrow> 'w \<Rightarrow> 'w" where
  "Notify_loop [] ev w = w"
| "Notify_loop (s # ss) ev w = Notify_loop ss ev (snd (s ev w))"

definition Notify :: "'w Auditor option \<Rightarrow> string list \<Rightarrow> string \<Rightarrow> 'w clock \<Rightarrow> 'w \<Rightarrow> 'w" where
  "Notify a metrics ip now w =
     (if \<not> Enabled a then w
      else case a of
        None \<Rightarrow> w
      | Some au \<Rightarrow>
          (case now w of
             (ts, w1) \<Rightarrow> Notify_loop (sinks au) \<lparr>TS = ts, Metrics = metrics, IPAddress = ip\<rparr> w1))"

section \<open>The network sink (package audit)\<close>

record HTTPSink =
  url :: string

record http_request =
  Method :: string
  Target :: string
  ContentType :: string
  Payload :: bytes

record http_response =
  StatusCode :: int

text \<open>
  What \<open>Send\<close> calls outside the repository: \<open>json.Marshal\<close>,
  \<open>http.NewRequestWithContext\<close> and the client's \<open>Do\<close>, whose answer is the peer's.
\<close>

record http_env =
  Marshal :: "Event \<Rightarrow> error + bytes"
  NewRequest :: "string \<Rightarrow> string \<Rightarrow> bytes \<Rightarrow> error + http_request"
  Do :: "http_request \<Rightarrow> error + http_response"

definition HTTPSink_Send :: "http_env \<Rightarrow> HTTPSink \<Rightarrow> Event \<Rightarrow> error option" where
  "HTTPSink_Send env s ev =
     (case Marshal env ev of
        Inl err \<Rightarrow> Some err
      | Inr b \<Rightarrow>
          (case NewRequest env ''POST'' (url s) b of
             Inl err \<Rightarrow> Some err
           | Inr req \<Rightarrow>
               (case Do env (req\<lparr>ContentType := ''application/json''\<rparr>) of
                  Inl err \<Rightarrow> Some err
                | Inr resp \<Rightarrow>
                    if StatusCode resp \<ge> 300 then Some (ErrStatus (StatusCode resp))
                    else None)))"

section \<open>The batch handler (package handler)\<close>

text \<open>
  The part of \<open>*http.Request\<close> the handler itself reads: the \<open>Content-Type\<close> header
  and the body. The JSON decoder of the body (behind a 10 MB limit) and \<open>time.Now\<close>
  belong to Go's library and are parameters. So is the address that the package's
  helper \<open>ClientIP\<close> computes from the request: the handler only passes it on to the
  auditor.
\<close>

record Request =
  HeaderContentType :: string
  Body :: bytes

record 'w handler_env =
  DecodeBatch :: "bytes \<Rightarrow> error + Metrics list"
  ClientIP :: "Request \<Rightarrow> string"
  TimeNow :: "'w clock"

text \<open>
  Modelled from the spec: \<open>WriteSignedJSONResponse\<close> is not among the sources. The spec
  keeps response signing outside the core, and by the doc comment of \<open>UpdatesHandler\<close>
  the answer on success is the JSON object with \<open>status\<close> set to \<open>ok\<close>, status 200:
  the constructor \<open>StatusOK\<close>. Every other answer is \<open>http.Error(w, msg, code)\<close>.
\<close>

datatype Response = HttpError string int | StatusOK

fun status_code :: "Response \<Rightarrow> int" where
  "status_code (HttpError msg code) = code"
| "status_code StatusOK = 200"

text \<open>
  The \<open>repository.Storage\<close> handed to the handler either implements
  \<open>repository.BatchUpdater\<close> too, as \<open>*MemStorage\<close> does, or only the point
  operations; the second kind is given the point operations of \<open>MemStorage\<close>.
\<close>

datatype Storage = BatchUpdater MemStorage | PointOnly MemStorage

text \<open>The fallback loop: entry by entry, returning at the first invalid one.\<close>

fun fallback_loop :: "MemStorage \<Rightarrow> Metrics list \<Rightarrow> Response option \<times> MemStorage" where
  "fallback_loop s [] = (None, s)"
| "fallback_loop s (m # batch) =
     (if MType m = ''gauge'' then
        (case Value m of
           None \<Rightarrow> (Some (HttpError ''gauge without value'' 400), s)
         | Some v \<Rightarrow> fallback_loop (UpdateGauge s (ID m) v) batch)
      else if MType m = ''counter'' then
        (case Delta m of
           None \<Rightarrow> (Some (HttpError ''counter without delta'' 400), s)
         | Some d \<Rightarrow> fallback_loop (UpdateCounter s (ID m) d) batch)
      else (Some (HttpError ''unknown mtype'' 400), s))"

definition apply_batch :: "Storage \<Rightarrow> Metrics list \<Rightarrow> Response option \<times> Storage" where
  "apply_batch storage batch =
     (case storage of
        BatchUpdater s \<Rightarrow>
          (case UpdateBatch s batch of
             (Some err, s') \<Rightarrow> (Some (HttpError ''storage error'' 500), BatchUpdater s')
           | (None, s') \<Rightarrow> (None, BatchUpdater s'))
      | PointOnly s \<Rightarrow>
          (case fallback_loop s batch of (resp, s') \<Rightarrow> (resp, PointOnly s')))"

text \<open>
  The handler returns the answer, the storage and the world it leaves. The signing key
  only reaches \<open>WriteSignedJSONResponse\<close> and is left out.
\<close>

definition UpdatesHandler ::
  "'w handler_env \<Rightarrow> Storage \<Rightarrow> 'w Auditor option \<Rightarrow> Request \<Rightarrow> 'w \<Rightarrow> Response \<times> Storage \<times> 'w"
where
  "UpdatesHandler env storage aud r w =
     (if HeaderContentType r \<noteq> [] \<and> HeaderContentType r \<noteq> ''application/json'' then
        (HttpError ''Content-Type must be application/json'' 415, storage, w)
      else
        (case DecodeBatch env (Body r) of
           Inl err \<Rightarrow> (HttpError ''bad json'' 400, storage, w)
         | Inr batch \<Rightarrow>
             if length batch = 0 then (HttpError ''empty batch'' 400, storage, w)
             else
               (case apply_batch storage batch of
                  (Some resp, storage') \<Rightarrow> (resp, storage', w)
                | (None, storage') \<Rightarrow>
                    (StatusOK, storage',
                     if aud \<noteq> None \<and> Enabled aud
                     then Notify aud (map ID batch) (ClientIP env r) (TimeNow env) w
                     else w))))"

section \<open>Reference notions the claims are stated with\<close>

text \<open>
  What the specification says a batch does, written with the point operations: a gauge
  entry with a value is one \<open>UpdateGauge\<close> call, a counter entry with a delta is one
  \<open>UpdateCounter\<close> call, and any other entry leaves the storage as it is.
\<close>

definition spec_apply_entry :: "MemStorage \<Rightarrow> Metrics \<Rightarrow> MemStorage" where
  "spec_apply_entry s met =
     (if MType met = ''gauge'' \<and> Value met \<noteq> None then UpdateGauge s (ID met) (the (Value met))
      else if MType met = ''counter'' \<and> Delta met \<noteq> None then
        UpdateCounter s (ID met) (the (Delta met))
      else s)"

text \<open>An entry lacks its required field: a gauge without value or a counter without delta.\<close>

definition missing_required :: "Metrics \<Rightarrow> bool" where
  "missing_required met =
     (MType met = ''gauge'' \<and> Value met = None \<or> MType met = ''counter'' \<and> Delta met = None)"


text \<open>A run of \<open>UpdateGauge\<close> calls, given as (name, value) pairs in call order.\<close>

fun gauge_calls :: "MemStorage \<Rightarrow> (string \<times> float64) list \<Rightarrow> MemStorage" where
  "gauge_calls s [] = s"
| "gauge_calls s ((name, val) # calls) = gauge_calls (UpdateGauge s name val) calls"

text \<open>
  An observable world for the audit: the trace of clock readings and deliveries, with a
  clock that always shows \<open>t\<close> and sinks that record what they are sent and then
  return a fixed result, an error or \<open>nil\<close>.
\<close>

datatype action = ClockRead | Sent nat Event

definition recording_clock :: "int64 \<Rightarrow> action list clock" where
  "recording_clock t w = (t, w @ [ClockRead])"

definition recording_sink :: "nat \<Rightarrow> error option \<Rightarrow> action list Sink" where
  "recording_sink i result ev w = (result, w @ [Sent i ev])"

definition recording_sinks :: "error option list \<Rightarrow> action list Sink list" where
  "recording_sinks results = map (\<lambda>i. recording_sink i (results ! i)) [0..<length results]"

text \<open>The request reached the peer and the peer answered with status \<open>code\<close>.\<close>

definition answers :: "http_env \<Rightarrow> HTTPSink \<Rightarrow> Event \<Rightarrow> int \<Rightarrow> bool" where
  "answers env s ev code =
     (case Marshal env ev of
        Inl err \<Rightarrow> False
      | Inr b \<Rightarrow>
          (case NewRequest env ''POST'' (url s) b of
             Inl err \<Rightarrow> False
           | Inr req \<Rightarrow>
               Do env (req\<lparr>ContentType := ''application/json''\<rparr>) = Inr \<lparr>StatusCode = code\<rparr>))"

section \<open>Example inputs\<close>

text \<open>Batch entries: valid ones, ones missing their field, one of an unknown kind.\<close>

definition ex_gauge :: Metrics where
  "ex_gauge = \<lparr>ID = ''g1'', MType = ''gauge'', Delta = None, Value = Some 0x3FF3AE147AE147AE\<rparr>"

definition ex_counter :: Metrics where
  "ex_counter = \<lparr>ID = ''c1'', MType = ''counter'', Delta = Some 5, Value = None\<rparr>"

definition ex_gauge_no_value :: Metrics where
  "ex_gauge_no_value = \<lparr>ID = ''g2'', MType = ''gauge'', Delta = None, Value = None\<rparr>"

definition ex_counter_no_delta :: Metrics where
  "ex_counter_no_delta = \<lparr>ID = ''c2'', MType = ''counter'', Delta = None, Value = Some 1\<rparr>"

definition ex_unknown_kind :: Metrics where
  "ex_unknown_kind = \<lparr>ID = ''h1'', MType = ''histogram'', Delta = Some 1, Value = Some 1\<rparr>"

lemmas ex_entries =
  ex_gauge_def ex_counter_def ex_gauge_no_value_def ex_counter_no_delta_def ex_unknown_kind_def

text \<open>
  An empty file system, a storage with one gauge and one counter, and a codec that knows
  two files: the snapshot of that storage and a file with two records for one counter.
  Every other content is malformed for it.
\<close>

definition no_files :: filesystem where
  "no_files = (\<lambda>path. Inl ErrNotExist)"

definition ex_storage :: MemStorage where
  "ex_storage = \<lparr>gauges = [''g1'' \<mapsto> 0x3FF3AE147AE147AE], counters = [''c1'' \<mapsto> 5]\<rparr>"

definition ex_records :: "Metrics list" where
  "ex_records = [gauge_record (''g1'', 0x3FF3AE147AE147AE), counter_record (''c1'', 5)]"

definition ex_records_twice :: "Metrics list" where
  "ex_records_twice = [counter_record (''c1'', 1), counter_record (''c1'', 2)]"

definition ex_codec :: json_codec where
  "ex_codec =
     \<lparr>MarshalIndent = (\<lambda>ms. if ms = ex_records then Inr ''<g1, c1 5>''
                              else Inl (ErrOther ''unsupported value'')),
      Unmarshal = (\<lambda>data. if data = ''<g1, c1 5>'' then Inr ex_records
                          else if data = ''<c1 1, c1 2>'' then Inr ex_records_twice
                          else Inl (ErrOther ''invalid character''))\<rparr>"





text \<open>
  A peer that answers every request with a fixed status, an audit event, and a request
  whose body decodes to a given batch.
\<close>

definition ex_http_env :: "int \<Rightarrow> http_env" where
  "ex_http_env code =
     \<lparr>Marshal = (\<lambda>ev. Inr ''<event>''),
      NewRequest = (\<lambda>method target body.
         Inr \<lparr>Method = method, Target = target, ContentType = [], Payload = body\<rparr>),
      Do = (\<lambda>req. Inr \<lparr>StatusCode = code\<rparr>)\<rparr>"

definition ex_event :: Event where
  "ex_event = \<lparr>TS = 1700000000, Metrics = [''g1'', ''c1''], IPAddress = ''192.0.2.55''\<rparr>"

definition ex_handler_env :: "Metrics list \<Rightarrow> action list handler_env" where
  "ex_handler_env batch =
     \<lparr>DecodeBatch = (\<lambda>body. Inr batch),
      ClientIP = (\<lambda>r. ''192.0.2.55''),
      TimeNow = recording_clock 1700000000\<rparr>"

definition ex_request :: Request where
  "ex_request = \<lparr>HeaderContentType = ''application/json'', Body = ''<batch>''\<rparr>"

section \<open>Point operations and batches\<close>

lemma spec_apply_entry_step:
  "UpdateBatch_loop s (met # batch) = UpdateBatch_loop (spec_apply_entry s met) batch"
  by (auto simp: spec_apply_entry_def UpdateGauge_def UpdateCounter_def split: option.splits)

lemma UpdateBatch_loop_foldl: "UpdateBatch_loop s batch = foldl spec_apply_entry s batch"
proof (induction batch arbitrary: s)
  case Nil
  show ?case by simp
next
  case (Cons met batch)
  have "UpdateBatch_loop s (met # batch) = UpdateBatch_loop (spec_apply_entry s met) batch"
    by (rule spec_apply_entry_step)
  also have "\<dots> = foldl spec_apply_entry (spec_apply_entry s met) batch"
    by (rule Cons.IH)
  finally show ?case by simp
qed

lemma UpdateBatch_loop_append:
  "UpdateBatch_loop s (xs @ ys) = UpdateBatch_loop (UpdateBatch_loop s xs) ys"
  by (simp add: UpdateBatch_loop_foldl)

lemma UpdateBatch_append:
  "UpdateBatch s (xs @ ys) = UpdateBatch (snd (UpdateBatch s xs)) ys"
  by (simp add: UpdateBatch_def UpdateBatch_loop_append)

lemma UpdateBatch_skip_entry:
  assumes "spec_apply_entry (snd (UpdateBatch s pre)) met = snd (UpdateBatch s pre)"
  shows "UpdateBatch s (pre @ met # post) = UpdateBatch s (pre @ post)"
proof -
  have "UpdateBatch_loop s (pre @ met # post)
      = UpdateBatch_loop (spec_apply_entry (UpdateBatch_loop s pre) met) post"
    by (simp only: UpdateBatch_loop_append spec_apply_entry_step)
  also have "\<dots> = UpdateBatch_loop (UpdateBatch_loop s pre) post"
    using assms by (simp add: UpdateBatch_def)
  also have "\<dots> = UpdateBatch_loop s (pre @ post)"
    by (simp only: UpdateBatch_loop_append)
  finally show ?thesis by (simp add: UpdateBatch_def)
qed

lemma spec_apply_entry_missing: "missing_required met \<Longrightarrow> spec_apply_entry s met = s"
  by (auto simp: missing_required_def spec_apply_entry_def)

lemma spec_apply_entry_unknown:
  "MType met \<noteq> ''gauge'' \<Longrightarrow> MType met \<noteq> ''counter'' \<Longrightarrow> spec_apply_entry s met = s"
  by (simp add: spec_apply_entry_def)

lemma UpdateBatch_point_entry:
  "UpdateBatch s (pre @ met # post) = UpdateBatch (spec_apply_entry (snd (UpdateBatch s pre)) met) post"
  by (simp only: UpdateBatch_def snd_conv UpdateBatch_loop_append spec_apply_entry_step)

text \<open>
  C1. \<open>MemStorage.UpdateBatch\<close> is the left-to-right run of point operations over the
  batch: after the entries before it, an entry of kind gauge with a value is exactly one
  \<open>UpdateGauge\<close> call, an entry of kind counter with a delta is exactly one
  \<open>UpdateCounter\<close> call, and an entry whose required field is missing is skipped: the
  batch behaves as the batch without it, the error is \<open>nil\<close>.
\<close>

theorem UpdateBatch_applies_present_skips_missing:
  "UpdateBatch s batch = (None, foldl spec_apply_entry s batch) \<and>
   (MType met = ''gauge'' \<and> Value met = Some v \<longrightarrow>
      UpdateBatch s (pre @ met # post)
        = UpdateBatch (UpdateGauge (snd (UpdateBatch s pre)) (ID met) v) post) \<and>
   (MType met = ''counter'' \<and> Delta met = Some d \<longrightarrow>
      UpdateBatch s (pre @ met # post)
        = UpdateBatch (UpdateCounter (snd (UpdateBatch s pre)) (ID met) d) post) \<and>
   (missing_required met \<longrightarrow>
      UpdateBatch s (pre @ met # post) = UpdateBatch s (pre @ post) \<and>
      UpdateBatch s [met] = (None, s))"
proof (intro conjI impI)
  show "UpdateBatch s batch = (None, foldl spec_apply_entry s batch)"
    by (simp add: UpdateBatch_def UpdateBatch_loop_foldl)
next
  assume "MType met = ''gauge'' \<and> Value met = Some v"
  then have "spec_apply_entry (snd (UpdateBatch s pre)) met
           = UpdateGauge (snd (UpdateBatch s pre)) (ID met) v"
    by (simp add: spec_apply_entry_def)
  then show "UpdateBatch s (pre @ met # post)
           = UpdateBatch (UpdateGauge (snd (UpdateBatch s pre)) (ID met) v) post"
    by (simp only: UpdateBatch_point_entry)
next
  assume "MType met = ''counter'' \<and> Delta met = Some d"
  then have "spec_apply_entry (snd (UpdateBatch s pre)) met
           = UpdateCounter (snd (UpdateBatch s pre)) (ID met) d"
    by (simp add: spec_apply_entry_def)
  then show "UpdateBatch s (pre @ met # post)
           = UpdateBatch (UpdateCounter (snd (UpdateBatch s pre)) (ID met) d) post"
    by (simp only: UpdateBatch_point_entry)
next
  assume m: "missing_required met"
  show "UpdateBatch s (pre @ met # post) = UpdateBatch s (pre @ post)"
    by (rule UpdateBatch_skip_entry) (rule spec_apply_entry_missing [OF m])
  show "UpdateBatch s [met] = (None, s)"
    using spec_apply_entry_missing [OF m, of s]
    by (simp add: UpdateBatch_def UpdateBatch_loop_foldl)
qed

theorem UpdateBatch_applies_present_skips_missing_witness:
  "MType ex_gauge = ''gauge'' \<and> Value ex_gauge = Some 0x3FF3AE147AE147AE \<and>
   UpdateBatch NewMemStorage ([ex_counter_no_delta] @ ex_gauge # [ex_counter])
     = UpdateBatch (UpdateGauge (snd (UpdateBatch NewMemStorage [ex_counter_no_delta])) ''g1''
         0x3FF3AE147AE147AE) [ex_counter] \<and>
   MType ex_counter = ''counter'' \<and> Delta ex_counter = Some 5 \<and>
   UpdateBatch NewMemStorage ([ex_gauge] @ ex_counter # [ex_gauge_no_value])
     = UpdateBatch (UpdateCounter (snd (UpdateBatch NewMemStorage [ex_gauge])) ''c1'' 5)
         [ex_gauge_no_value] \<and>
   missing_required ex_gauge_no_value \<and>
   UpdateBatch NewMemStorage ([ex_gauge] @ ex_gauge_no_value # [ex_counter])
     = UpdateBatch NewMemStorage ([ex_gauge] @ [ex_counter]) \<and>
   UpdateBatch NewMemStorage [ex_gauge_no_value] = (None, NewMemStorage)"
proof -
  have g: "MType ex_gauge = ''gauge'' \<and> Value ex_gauge = Some 0x3FF3AE147AE147AE"
    by (simp add: ex_entries)
  have c: "MType ex_counter = ''counter'' \<and> Delta ex_counter = Some 5"
    by (simp add: ex_entries)
  have m: "missing_required ex_gauge_no_value"
    by (simp add: missing_required_def ex_entries)
  have ig: "ID ex_gauge = ''g1''" and ic: "ID ex_counter = ''c1''"
    by (simp_all add: ex_entries)
  note a = UpdateBatch_applies_present_skips_missing
    [of NewMemStorage "[]" ex_gauge "0x3FF3AE147AE147AE" "[ex_counter_no_delta]" "[ex_counter]" 0]
  note b = UpdateBatch_applies_present_skips_missing
    [of NewMemStorage "[]" ex_counter 0 "[ex_gauge]" "[ex_gauge_no_value]" 5]
  note e = UpdateBatch_applies_present_skips_missing
    [of NewMemStorage "[]" ex_gauge_no_value 0 "[ex_gauge]" "[ex_counter]" 0]
  from a g have 1: "UpdateBatch NewMemStorage ([ex_counter_no_delta] @ ex_gauge # [ex_counter])
     = UpdateBatch (UpdateGauge (snd (UpdateBatch NewMemStorage [ex_counter_no_delta])) ''g1''
         0x3FF3AE147AE147AE) [ex_counter]"
    unfolding ig by blast
  from b c have 2: "UpdateBatch NewMemStorage ([ex_gauge] @ ex_counter # [ex_gauge_no_value])
     = UpdateBatch (UpdateCounter (snd (UpdateBatch NewMemStorage [ex_gauge])) ''c1'' 5)
         [ex_gauge_no_value]"
    unfolding ic by blast
  from e m have 3: "UpdateBatch NewMemStorage ([ex_gauge] @ ex_gauge_no_value # [ex_counter])
     = UpdateBatch NewMemStorage ([ex_gauge] @ [ex_counter]) \<and>
   UpdateBatch NewMemStorage [ex_gauge_no_value] = (None, NewMemStorage)"
    by blast
  from g c m 1 2 3 show ?thesis by blast
qed

section \<open>Counters accumulate\<close>

lemma UpdateCounter_twice:
  "counters (UpdateCounter (UpdateCounter s name a) name b) name
     = Some (counter_or_zero (counters s) name + a + b)"
  by (simp add: UpdateCounter_def counter_or_zero_def)

lemma GetCounter_Some: "counters s name = Some v \<Longrightarrow> GetCounter s name = (v, True)"
  by (simp add: GetCounter_def)

lemma UpdateBatch_two_counters:
  "snd (UpdateBatch s
      [\<lparr>ID = name, MType = ''counter'', Delta = Some a, Value = va\<rparr>,
       \<lparr>ID = name, MType = ''counter'', Delta = Some b, Value = vb\<rparr>])
   = UpdateCounter (UpdateCounter s name a) name b"
  by (simp add: UpdateBatch_def UpdateCounter_def)

text \<open>
  C2. From a state where the counter \<open>name\<close> is absent, two \<open>UpdateCounter\<close> calls
  with deltas \<open>d1\<close> and \<open>d2\<close>, or one batch with the two counter entries, leave
  \<open>GetCounter name\<close> returning \<open>(d1 + d2, true)\<close> (the sum is Go's wrapping
  \<open>int64\<close> addition), and the same holds with \<open>d1\<close> and \<open>d2\<close> swapped.
\<close>

theorem counter_accumulates_order_independent:
  assumes "counters s name = None"
  shows "GetCounter (UpdateCounter (UpdateCounter s name d1) name d2) name = (d1 + d2, True) \<and>
         GetCounter (UpdateCounter (UpdateCounter s name d2) name d1) name = (d1 + d2, True) \<and>
         UpdateBatch s
           [\<lparr>ID = name, MType = ''counter'', Delta = Some d1, Value = v1\<rparr>,
            \<lparr>ID = name, MType = ''counter'', Delta = Some d2, Value = v2\<rparr>]
           = (None, UpdateCounter (UpdateCounter s name d1) name d2) \<and>
         GetCounter (snd (UpdateBatch s
           [\<lparr>ID = name, MType = ''counter'', Delta = Some d1, Value = v1\<rparr>,
            \<lparr>ID = name, MType = ''counter'', Delta = Some d2, Value = v2\<rparr>])) name
           = (d1 + d2, True) \<and>
         GetCounter (snd (UpdateBatch s
           [\<lparr>ID = name, MType = ''counter'', Delta = Some d2, Value = v2\<rparr>,
            \<lparr>ID = name, MType = ''counter'', Delta = Some d1, Value = v1\<rparr>])) name
           = (d1 + d2, True)"
proof -
  have zero: "counter_or_zero (counters s) name = 0"
    using assms by (simp add: counter_or_zero_def)
  have fwd: "GetCounter (UpdateCounter (UpdateCounter s name d1) name d2) name = (d1 + d2, True)"
    by (rule GetCounter_Some) (simp add: UpdateCounter_twice zero)
  have bwd: "GetCounter (UpdateCounter (UpdateCounter s name d2) name d1) name = (d1 + d2, True)"
    by (rule GetCounter_Some) (simp add: UpdateCounter_twice zero add.commute)
  have err: "fst (UpdateBatch s
           [\<lparr>ID = name, MType = ''counter'', Delta = Some d1, Value = v1\<rparr>,
            \<lparr>ID = name, MType = ''counter'', Delta = Some d2, Value = v2\<rparr>]) = None"
    by (simp add: UpdateBatch_def)
  have batch: "UpdateBatch s
           [\<lparr>ID = name, MType = ''counter'', Delta = Some d1, Value = v1\<rparr>,
            \<lparr>ID = name, MType = ''counter'', Delta = Some d2, Value = v2\<rparr>]
           = (None, UpdateCounter (UpdateCounter s name d1) name d2)"
    using err UpdateBatch_two_counters [of s name d1 v1 d2 v2] by (simp add: prod_eq_iff)
  show ?thesis
    using fwd bwd batch by (simp add: UpdateBatch_two_counters)
qed

theorem counter_accumulates_order_independent_witness:
  "counters NewMemStorage ''c1'' = None \<and>
   GetCounter (UpdateCounter (UpdateCounter NewMemStorage ''c1'' 5) ''c1'' 3) ''c1'' = (8, True) \<and>
   GetCounter (UpdateCounter (UpdateCounter NewMemStorage ''c1'' 3) ''c1'' 5) ''c1'' = (8, True) \<and>
   GetCounter (snd (UpdateBatch NewMemStorage
     [\<lparr>ID = ''c1'', MType = ''counter'', Delta = Some 5, Value = None\<rparr>,
      \<lparr>ID = ''c1'', MType = ''counter'', Delta = Some 3, Value = None\<rparr>])) ''c1'' = (8, True)"
proof -
  have absent: "counters NewMemStorage ''c1'' = None"
    by (simp add: NewMemStorage_def)
  show ?thesis
    using absent counter_accumulates_order_independent [OF absent, of 5 3 None None]
    by simp
qed

section \<open>Gauges: the last write wins\<close>

lemma gauge_calls_append:
  "gauge_calls s (xs @ ys) = gauge_calls (gauge_calls s xs) ys"
  by (induction s xs rule: gauge_calls.induct) simp_all

lemma gauge_calls_other:
  "name \<notin> fst ` set calls \<Longrightarrow> gauges (gauge_calls s calls) name = gauges s name"
proof (induction s calls rule: gauge_calls.induct)
  case (1 s)
  show ?case by simp
next
  case (2 s n v calls)
  then have "gauges (gauge_calls (UpdateGauge s n v) calls) name = gauges (UpdateGauge s n v) name"
    by simp
  moreover from "2.prems" have "n \<noteq> name" by auto
  ultimately show ?case by (simp add: UpdateGauge_def)
qed

lemma gauge_calls_set:
  "name \<in> fst ` set calls \<Longrightarrow> gauges (gauge_calls s calls) name \<noteq> None"
proof (induction s calls rule: gauge_calls.induct)
  case (1 s)
  then show ?case by simp
next
  case (2 s n v calls)
  show ?case
  proof (cases "name \<in> fst ` set calls")
    case True
    then show ?thesis using "2.IH" by simp
  next
    case False
    with "2.prems" have "n = name" by auto
    moreover from False
    have "gauges (gauge_calls (UpdateGauge s n v) calls) name = gauges (UpdateGauge s n v) name"
      by (rule gauge_calls_other)
    ultimately show ?thesis by (simp add: UpdateGauge_def)
  qed
qed

lemma GetGauge_found: "snd (GetGauge s name) = (gauges s name \<noteq> None)"
  by (simp add: GetGauge_def split: option.splits)

text \<open>
  C3. In every sequence of \<open>UpdateGauge\<close> calls, from any storage, \<open>GetGauge name\<close>
  returns the value of the most recent call for \<open>name\<close> (the call after which no
  later call names \<open>name\<close>) with \<open>found = true\<close>; a single call overwrites whatever
  was stored; and on a storage that starts empty, \<open>found = false\<close> exactly when no call
  of the sequence names \<open>name\<close>.
\<close>

theorem gauge_last_write_wins:
  "(name \<notin> fst ` set later \<longrightarrow>
      GetGauge (gauge_calls s (earlier @ (name, v) # later)) name = (v, True)) \<and>
   GetGauge (UpdateGauge s name v) name = (v, True) \<and>
   (snd (GetGauge (gauge_calls NewMemStorage calls) name) = False)
     = (name \<notin> fst ` set calls)"
proof (intro conjI impI)
  assume later: "name \<notin> fst ` set later"
  have "gauges (gauge_calls s (earlier @ (name, v) # later)) name
      = gauges (gauge_calls (UpdateGauge (gauge_calls s earlier) name v) later) name"
    by (simp add: gauge_calls_append)
  also have "\<dots> = gauges (UpdateGauge (gauge_calls s earlier) name v) name"
    using later by (rule gauge_calls_other)
  also have "\<dots> = Some v"
    by (simp add: UpdateGauge_def)
  finally show "GetGauge (gauge_calls s (earlier @ (name, v) # later)) name = (v, True)"
    by (simp add: GetGauge_def)
next
  show "GetGauge (UpdateGauge s name v) name = (v, True)"
    by (simp add: GetGauge_def UpdateGauge_def)
next
  show "(snd (GetGauge (gauge_calls NewMemStorage calls) name) = False)
      = (name \<notin> fst ` set calls)"
  proof (cases "name \<in> fst ` set calls")
    case True
    then show ?thesis
      using gauge_calls_set [of name calls NewMemStorage] by (simp add: GetGauge_found)
  next
    case False
    then have "gauges (gauge_calls NewMemStorage calls) name = None"
      using gauge_calls_other [of name calls NewMemStorage] by (simp add: NewMemStorage_def)
    with False show ?thesis by (simp add: GetGauge_found)
  qed
qed

theorem gauge_last_write_wins_witness:
  "''g1'' \<notin> fst ` set [(''g2'', 7 :: float64)] \<and>
   GetGauge (gauge_calls NewMemStorage ([(''g1'', 1)] @ (''g1'', 2) # [(''g2'', 7)])) ''g1''
     = (2, True) \<and>
   snd (GetGauge (gauge_calls NewMemStorage [(''g1'', 1), (''g1'', 2), (''g2'', 7)]) ''g3'')
     = False"
proof -
  have h: "''g1'' \<notin> fst ` set [(''g2'', 7 :: float64)]" by simp
  have n: "''g3'' \<notin> fst ` set [(''g1'', 1 :: float64), (''g1'', 2), (''g2'', 7)]" by simp
  from gauge_last_write_wins [of "''g1''" "[(''g2'', 7)]" NewMemStorage "[(''g1'', 1)]" 2] h
  have 1: "GetGauge (gauge_calls NewMemStorage ([(''g1'', 1)] @ (''g1'', 2) # [(''g2'', 7)])) ''g1''
     = (2, True)"
    by blast
  from gauge_last_write_wins
    [of "''g3''" "[]" NewMemStorage "[]" 0 "[(''g1'', 1), (''g1'', 2), (''g2'', 7)]"] n
  have 2: "snd (GetGauge (gauge_calls NewMemStorage [(''g1'', 1), (''g1'', 2), (''g2'', 7)]) ''g3'')
     = False"
    by blast
  from h 1 2 show ?thesis by blast
qed

section \<open>\<open>UpdateBatch\<close> never fails\<close>

text \<open>
  C10. \<open>MemStorage.UpdateBatch\<close> returns a \<open>nil\<close> error for every batch. An entry
  whose kind is neither \<open>"gauge"\<close> nor \<open>"counter"\<close> is skipped: wherever it stands, the
  batch behaves as the batch without it, and alone it leaves the storage as it was; an
  entry that misses its required field is skipped in the same way.
\<close>

theorem UpdateBatch_never_fails:
  "fst (UpdateBatch s batch) = None \<and>
   (MType met \<noteq> ''gauge'' \<and> MType met \<noteq> ''counter'' \<longrightarrow>
      UpdateBatch s (pre @ met # post) = UpdateBatch s (pre @ post) \<and>
      UpdateBatch s [met] = (None, s)) \<and>
   (missing_required met \<longrightarrow>
      UpdateBatch s (pre @ met # post) = UpdateBatch s (pre @ post) \<and>
      UpdateBatch s [met] = (None, s))"
proof (intro conjI impI)
  show "fst (UpdateBatch s batch) = None"
    by (simp add: UpdateBatch_def)
next
  assume u: "MType met \<noteq> ''gauge'' \<and> MType met \<noteq> ''counter''"
  then have skip: "\<And>t. spec_apply_entry t met = t"
    by (simp add: spec_apply_entry_unknown)
  show "UpdateBatch s (pre @ met # post) = UpdateBatch s (pre @ post)"
    by (rule UpdateBatch_skip_entry) (rule skip)
  show "UpdateBatch s [met] = (None, s)"
    by (simp add: UpdateBatch_def UpdateBatch_loop_foldl skip)
next
  assume m: "missing_required met"
  then have skip: "\<And>t. spec_apply_entry t met = t"
    by (rule spec_apply_entry_missing)
  show "UpdateBatch s (pre @ met # post) = UpdateBatch s (pre @ post)"
    by (rule UpdateBatch_skip_entry) (rule skip)
  show "UpdateBatch s [met] = (None, s)"
    by (simp add: UpdateBatch_def UpdateBatch_loop_foldl skip)
qed

theorem UpdateBatch_never_fails_witness:
  "MType ex_unknown_kind \<noteq> ''gauge'' \<and> MType ex_unknown_kind \<noteq> ''counter'' \<and>
   UpdateBatch NewMemStorage ([ex_gauge] @ ex_unknown_kind # [ex_counter])
     = UpdateBatch NewMemStorage ([ex_gauge] @ [ex_counter]) \<and>
   UpdateBatch NewMemStorage [ex_unknown_kind] = (None, NewMemStorage) \<and>
   missing_required ex_counter_no_delta \<and>
   UpdateBatch NewMemStorage ([ex_gauge] @ ex_counter_no_delta # [ex_counter])
     = UpdateBatch NewMemStorage ([ex_gauge] @ [ex_counter]) \<and>
   UpdateBatch NewMemStorage [ex_counter_no_delta] = (None, NewMemStorage)"
proof -
  have u: "MType ex_unknown_kind \<noteq> ''gauge'' \<and> MType ex_unknown_kind \<noteq> ''counter''"
    by (simp add: ex_entries)
  have m: "missing_required ex_counter_no_delta"
    by (simp add: missing_required_def ex_entries)
  from UpdateBatch_never_fails [of NewMemStorage "[]" ex_unknown_kind "[ex_gauge]" "[ex_counter]"] u
  have 1: "UpdateBatch NewMemStorage ([ex_gauge] @ ex_unknown_kind # [ex_counter])
     = UpdateBatch NewMemStorage ([ex_gauge] @ [ex_counter]) \<and>
   UpdateBatch NewMemStorage [ex_unknown_kind] = (None, NewMemStorage)"
    by blast
  from UpdateBatch_never_fails
    [of NewMemStorage "[]" ex_counter_no_delta "[ex_gauge]" "[ex_counter]"] m
  have 2: "UpdateBatch NewMemStorage ([ex_gauge] @ ex_counter_no_delta # [ex_counter])
     = UpdateBatch NewMemStorage ([ex_gauge] @ [ex_counter]) \<and>
   UpdateBatch NewMemStorage [ex_counter_no_delta] = (None, NewMemStorage)"
    by blast
  from u m 1 2 show ?thesis by blast
qed

section \<open>Saving and loading round-trip\<close>



















section \<open>Loading: missing and malformed files\<close>

text \<open>
  C5. \<open>LoadFromFile\<close> on a path that does not exist returns \<open>nil\<close> and leaves the
  storage unchanged; on a file whose content \<open>json.Unmarshal\<close> rejects it returns that
  error and leaves the storage unchanged.
\<close>

theorem LoadFromFile_missing_or_malformed:
  "(ReadFile fs filename = Inl ErrNotExist \<longrightarrow> LoadFromFile codec s fs filename = (None, s)) \<and>
   (ReadFile fs filename = Inr data \<and> Unmarshal codec data = Inl err \<longrightarrow>
      LoadFromFile codec s fs filename = (Some err, s))"
  by (simp add: LoadFromFile_def)

theorem LoadFromFile_missing_or_malformed_witness:
  "ReadFile no_files ''metrics.json'' = Inl ErrNotExist \<and>
   LoadFromFile ex_codec ex_storage no_files ''metrics.json'' = (None, ex_storage) \<and>
   ReadFile (no_files(''metrics.json'' := Inr ''[{'')) ''metrics.json'' = Inr ''[{'' \<and>
   Unmarshal ex_codec ''[{'' = Inl (ErrOther ''invalid character'') \<and>
   LoadFromFile ex_codec ex_storage (no_files(''metrics.json'' := Inr ''[{'')) ''metrics.json''
     = (Some (ErrOther ''invalid character''), ex_storage)"
proof -
  have a: "ReadFile no_files ''metrics.json'' = Inl ErrNotExist"
    by (simp add: ReadFile_def no_files_def)
  have r: "ReadFile (no_files(''metrics.json'' := Inr ''[{'')) ''metrics.json'' = Inr ''[{''"
    by (simp add: ReadFile_def)
  have u: "Unmarshal ex_codec ''[{'' = Inl (ErrOther ''invalid character'')"
    by (simp add: ex_codec_def)
  from LoadFromFile_missing_or_malformed [of no_files "''metrics.json''" ex_codec ex_storage] a
  have 1: "LoadFromFile ex_codec ex_storage no_files ''metrics.json'' = (None, ex_storage)"
    by blast
  from LoadFromFile_missing_or_malformed
    [of "no_files(''metrics.json'' := Inr ''[{'')" "''metrics.json''" ex_codec ex_storage "''[{''"
        "ErrOther ''invalid character''"] r u
  have 2: "LoadFromFile ex_codec ex_storage (no_files(''metrics.json'' := Inr ''[{'')) ''metrics.json''
     = (Some (ErrOther ''invalid character''), ex_storage)"
    by blast
  from a r u 1 2 show ?thesis by blast
qed

section \<open>Loading sets counters, it does not add\<close>

lemma LoadFromFile_loop_append:
  "LoadFromFile_loop s (xs @ ys) = LoadFromFile_loop (LoadFromFile_loop s xs) ys"
  by (induction s xs rule: LoadFromFile_loop.induct) (simp_all split: option.splits)

lemma LoadFromFile_loop_counter_kept:
  "\<forall>r \<in> set ms. MType r = ''counter'' \<and> ID r = k \<longrightarrow> Delta r = None \<Longrightarrow>
   counters (LoadFromFile_loop s ms) k = counters s k"
  by (induction s ms rule: LoadFromFile_loop.induct) (auto split: option.splits)

text \<open>
  C6, as amended. \<open>LoadFromFile\<close> replaces rather than accumulates: for every counter
  record of the loaded file that carries a delta and is followed by no later counter
  record with a delta for the same name, the stored counter value after loading equals
  the record's delta, whatever value was in memory for that name before.
\<close>

theorem LoadFromFile_counter_last_record_wins:
  assumes "ReadFile fs filename = Inr data"
    and "Unmarshal codec data = Inr (earlier @ r # later)"
    and "MType r = ''counter''" and "Delta r = Some d"
    and "\<forall>r' \<in> set later. MType r' = ''counter'' \<and> ID r' = ID r \<longrightarrow> Delta r' = None"
  shows "fst (LoadFromFile codec s fs filename) = None \<and>
         GetCounter (snd (LoadFromFile codec s fs filename)) (ID r) = (d, True)"
proof -
  let ?s1 = "LoadFromFile_loop s earlier"
  have load: "LoadFromFile codec s fs filename = (None, LoadFromFile_loop s (earlier @ r # later))"
    using assms(1,2) by (simp add: LoadFromFile_def)
  have "LoadFromFile_loop s (earlier @ r # later)
      = LoadFromFile_loop (?s1\<lparr>counters := (counters ?s1)(ID r \<mapsto> d)\<rparr>) later"
    using assms(3,4) by (simp add: LoadFromFile_loop_append)
  then have "counters (LoadFromFile_loop s (earlier @ r # later)) (ID r)
      = counters (?s1\<lparr>counters := (counters ?s1)(ID r \<mapsto> d)\<rparr>) (ID r)"
    using assms(5) by (simp only: LoadFromFile_loop_counter_kept)
  then have "counters (LoadFromFile_loop s (earlier @ r # later)) (ID r) = Some d"
    by simp
  with load show ?thesis by (simp add: GetCounter_def)
qed

theorem LoadFromFile_counter_last_record_wins_witness:
  "ReadFile (no_files(''metrics.json'' := Inr ''<c1 1, c1 2>'')) ''metrics.json'' = Inr ''<c1 1, c1 2>'' \<and>
   Unmarshal ex_codec ''<c1 1, c1 2>'' = Inr ([counter_record (''c1'', 1)] @ counter_record (''c1'', 2) # []) \<and>
   MType (counter_record (''c1'', 2)) = ''counter'' \<and>
   Delta (counter_record (''c1'', 2)) = Some 2 \<and>
   GetCounter (snd (LoadFromFile ex_codec ex_storage
      (no_files(''metrics.json'' := Inr ''<c1 1, c1 2>'')) ''metrics.json'')) ''c1'' = (2, True)"
proof -
  have r: "ReadFile (no_files(''metrics.json'' := Inr ''<c1 1, c1 2>'')) ''metrics.json'' = Inr ''<c1 1, c1 2>''"
    by (simp add: ReadFile_def)
  have u: "Unmarshal ex_codec ''<c1 1, c1 2>'' = Inr ([counter_record (''c1'', 1)] @ counter_record (''c1'', 2) # [])"
    by (simp add: ex_codec_def ex_records_twice_def)
  have t: "MType (counter_record (''c1'', 2)) = ''counter''"
    and d: "Delta (counter_record (''c1'', 2)) = Some 2"
    and i: "ID (counter_record (''c1'', 2)) = ''c1''"
    by (simp_all add: counter_record_def)
  have l: "\<forall>r' \<in> set []. MType r' = ''counter'' \<and> ID r' = ID (counter_record (''c1'', 2)) \<longrightarrow> Delta r' = None"
    by simp
  from LoadFromFile_counter_last_record_wins [OF r u t d l, of ex_storage] r u t d
  show ?thesis unfolding i by blast
qed

text \<open>
  C6 as stated fails for a file with two records for one counter: the first record is a
  counter record of the file with delta 1, and after loading the stored value is 2.
\<close>

theorem LoadFromFile_earlier_duplicate_overwritten:
  "ReadFile (no_files(''metrics.json'' := Inr ''<c1 1, c1 2>'')) ''metrics.json'' = Inr ''<c1 1, c1 2>'' \<and>
   Unmarshal ex_codec ''<c1 1, c1 2>'' = Inr [counter_record (''c1'', 1), counter_record (''c1'', 2)] \<and>
   MType (counter_record (''c1'', 1)) = ''counter'' \<and>
   ID (counter_record (''c1'', 1)) = ''c1'' \<and>
   Delta (counter_record (''c1'', 1)) = Some 1 \<and>
   LoadFromFile ex_codec NewMemStorage (no_files(''metrics.json'' := Inr ''<c1 1, c1 2>'')) ''metrics.json''
     = (None, \<lparr>gauges = Map.empty, counters = [''c1'' \<mapsto> 2]\<rparr>) \<and>
   GetCounter (snd (LoadFromFile ex_codec NewMemStorage
      (no_files(''metrics.json'' := Inr ''<c1 1, c1 2>'')) ''metrics.json'')) ''c1'' = (2, True) \<and>
   GetCounter (snd (LoadFromFile ex_codec NewMemStorage
      (no_files(''metrics.json'' := Inr ''<c1 1, c1 2>'')) ''metrics.json'')) ''c1'' \<noteq> (1, True)"
  by (simp add: LoadFromFile_def ReadFile_def ex_codec_def ex_records_twice_def counter_record_def
      NewMemStorage_def GetCounter_def)


section \<open>Audit notification is best effort\<close>

lemma Notify_loop_recording:
  "Notify_loop (map (\<lambda>i. recording_sink i (f i)) js) ev w = w @ map (\<lambda>i. Sent i ev) js"
  by (induction js arbitrary: w) (simp_all add: recording_sink_def)

lemma Notify_loop_foldl: "Notify_loop ss ev w = foldl (\<lambda>w s. snd (s ev w)) w ss"
  by (induction ss arbitrary: w) simp_all

text \<open>
  C7. \<open>Notify\<close> on a \<open>nil\<close> auditor or on one without sinks returns at once: the
  world is unchanged, the clock is not read and no event is built. With sinks it reads
  the injected clock once, builds one event with that timestamp, the given names and
  address, and sends it to every configured sink, in order, once each; what a sink
  returns is dropped, so the outcome is the same whether sinks fail or not, and
  \<open>Notify\<close> has no error result to surface.
\<close>

theorem Notify_best_effort_fan_out:
  "(\<not> Enabled a \<longrightarrow> Notify a metrics ip now w = w) \<and>
   (Enabled a \<longrightarrow>
      Notify a metrics ip now w
        = foldl (\<lambda>u s. snd (s \<lparr>TS = fst (now w), Metrics = metrics, IPAddress = ip\<rparr> u))
            (snd (now w)) (sinks (the a))) \<and>
   Notify None metrics ip now w = w \<and>
   Notify (New []) metrics ip now w = w \<and>
   (results \<noteq> [] \<longrightarrow>
      Notify (New (recording_sinks results)) metrics ip (recording_clock t) tr
        = tr @ ClockRead #
            map (\<lambda>i. Sent i \<lparr>TS = t, Metrics = metrics, IPAddress = ip\<rparr>) [0..<length results])"
proof (intro conjI impI)
  assume "\<not> Enabled a"
  then show "Notify a metrics ip now w = w" by (simp add: Notify_def)
next
  assume "Enabled a"
  then show "Notify a metrics ip now w
        = foldl (\<lambda>u s. snd (s \<lparr>TS = fst (now w), Metrics = metrics, IPAddress = ip\<rparr> u))
            (snd (now w)) (sinks (the a))"
    by (cases a) (simp_all add: Notify_def Enabled_def Notify_loop_foldl split: prod.splits)
next
  show "Notify None metrics ip now w = w" by (simp add: Notify_def Enabled_def)
next
  show "Notify (New []) metrics ip now w = w" by (simp add: Notify_def Enabled_def New_def)
next
  assume "results \<noteq> []"
  then have "Enabled (New (recording_sinks results))"
    by (simp add: Enabled_def New_def recording_sinks_def)
  then show "Notify (New (recording_sinks results)) metrics ip (recording_clock t) tr
        = tr @ ClockRead #
            map (\<lambda>i. Sent i \<lparr>TS = t, Metrics = metrics, IPAddress = ip\<rparr>) [0..<length results]"
    by (simp add: Notify_def New_def recording_clock_def)
       (simp add: recording_sinks_def Notify_loop_recording)
qed


theorem Notify_best_effort_fan_out_witness:
  "\<not> Enabled (New ([] :: action list Sink list)) \<and>
   Notify (New []) [''g1''] ''192.0.2.55'' (recording_clock 1700000000) [] = [] \<and>
   [Some (ErrOther ''connection refused''), None] \<noteq> [] \<and>
   Notify (New (recording_sinks [Some (ErrOther ''connection refused''), None])) [''g1'', ''c1'']
       ''192.0.2.55'' (recording_clock 1700000000) []
     = [ClockRead,
        Sent 0 \<lparr>TS = 1700000000, Metrics = [''g1'', ''c1''], IPAddress = ''192.0.2.55''\<rparr>,
        Sent 1 \<lparr>TS = 1700000000, Metrics = [''g1'', ''c1''], IPAddress = ''192.0.2.55''\<rparr>]"
proof -
  have d: "\<not> Enabled (New ([] :: action list Sink list))"
    by (simp add: Enabled_def New_def)
  have n: "[Some (ErrOther ''connection refused''), None] \<noteq> []"
    by simp
  have u: "[0..<length [Some (ErrOther ''connection refused''), None]] = [0, 1]"
    by (simp add: upt_rec)
  from Notify_best_effort_fan_out
    [of "New []" "[''g1'']" "''192.0.2.55''" "recording_clock 1700000000" "[]"] d
  have 1: "Notify (New []) [''g1''] ''192.0.2.55'' (recording_clock 1700000000) [] = []"
    by blast
  from Notify_best_effort_fan_out
    [of "New []" "[''g1'', ''c1'']" "''192.0.2.55''" "recording_clock 1700000000" "[]"
        "[Some (ErrOther ''connection refused''), None]" 1700000000 "[]"] n
  have 2: "Notify (New (recording_sinks [Some (ErrOther ''connection refused''), None])) [''g1'', ''c1'']
       ''192.0.2.55'' (recording_clock 1700000000) []
     = [ClockRead,
        Sent 0 \<lparr>TS = 1700000000, Metrics = [''g1'', ''c1''], IPAddress = ''192.0.2.55''\<rparr>,
        Sent 1 \<lparr>TS = 1700000000, Metrics = [''g1'', ''c1''], IPAddress = ''192.0.2.55''\<rparr>]"
    unfolding u by simp
  from d n 1 2 show ?thesis by blast
qed

section \<open>The network sink and the response status\<close>

text \<open>
  C9, as amended. When the request reaches the peer and the peer answers,
  \<open>HTTPSink.Send\<close> returns \<open>nil\<close> exactly when the status code is below 300, so
  for every 2xx status; for every status from 300 up, the 3xx range included, it
  returns the error naming the status.
\<close>

theorem HTTPSink_Send_status_below_300:
  assumes "answers env s ev code"
  shows "(HTTPSink_Send env s ev = None) = (code < 300) \<and>
         (300 \<le> code \<longrightarrow> HTTPSink_Send env s ev = Some (ErrStatus code)) \<and>
         (200 \<le> code \<and> code < 300 \<longrightarrow> HTTPSink_Send env s ev = None)"
  using assms by (auto simp: answers_def HTTPSink_Send_def split: sum.splits)

theorem HTTPSink_Send_status_below_300_witness:
  "answers (ex_http_env 204) \<lparr>url = ''http://audit.example/events''\<rparr> ex_event 204 \<and>
   HTTPSink_Send (ex_http_env 204) \<lparr>url = ''http://audit.example/events''\<rparr> ex_event = None \<and>
   answers (ex_http_env 500) \<lparr>url = ''http://audit.example/events''\<rparr> ex_event 500 \<and>
   HTTPSink_Send (ex_http_env 500) \<lparr>url = ''http://audit.example/events''\<rparr> ex_event
     = Some (ErrStatus 500)"
proof -
  have a: "answers (ex_http_env 204) \<lparr>url = ''http://audit.example/events''\<rparr> ex_event 204"
    by (simp add: answers_def ex_http_env_def)
  have b: "answers (ex_http_env 500) \<lparr>url = ''http://audit.example/events''\<rparr> ex_event 500"
    by (simp add: answers_def ex_http_env_def)
  from HTTPSink_Send_status_below_300 [OF a] HTTPSink_Send_status_below_300 [OF b] a b
  show ?thesis by simp
qed

text \<open>
  C9 as stated fails at status 304: it lies in the 3xx range and \<open>Send\<close> returns an
  error.
\<close>

theorem HTTPSink_Send_rejects_304:
  "answers (ex_http_env 304) \<lparr>url = ''http://audit.example/events''\<rparr> ex_event 304 \<and>
   300 \<le> (304 :: int) \<and> (304 :: int) < 400 \<and>
   HTTPSink_Send (ex_http_env 304) \<lparr>url = ''http://audit.example/events''\<rparr> ex_event
     = Some (ErrStatus 304)"
  by (simp add: answers_def ex_http_env_def HTTPSink_Send_def)


section \<open>The batch handler and the names it audits\<close>

text \<open>
  On the fallback path an answer of success means that every entry of the batch was
  valid and applied, so the names of the batch are the names updated.
\<close>

lemma fallback_loop_success:
  "fallback_loop s batch = (None, s') \<Longrightarrow>
   s' = UpdateBatch_loop s batch \<and>
   (\<forall>m \<in> set batch. MType m = ''gauge'' \<and> Value m \<noteq> None \<or> MType m = ''counter'' \<and> Delta m \<noteq> None)"
  by (induction s batch rule: fallback_loop.induct)
     (auto simp: UpdateGauge_def UpdateCounter_def split: if_splits option.splits)


text \<open>
  C8. The claim fails on the \<open>BatchUpdater\<close> path. A batch with the single entry
  \<open>{id: "g2", type: "gauge"}\<close> (no value) sent to a new \<open>MemStorage\<close> with an enabled
  auditor is answered with status 200, the storage is unchanged, and the sink receives
  an event naming \<open>g2\<close>, a metric that was not updated. The same request on a storage
  with point operations only is answered 400 and nothing is audited, as the handler's
  documentation and \<open>ExampleUpdatesHandler_missingValue\<close> expect.
\<close>

theorem UpdatesHandler_audits_skipped_entry:
  "UpdatesHandler (ex_handler_env [ex_gauge_no_value]) (BatchUpdater NewMemStorage)
      (New [recording_sink 0 None]) ex_request []
     = (StatusOK, BatchUpdater NewMemStorage,
        [ClockRead,
         Sent 0 \<lparr>TS = 1700000000, Metrics = [''g2''], IPAddress = ''192.0.2.55''\<rparr>]) \<and>
   status_code StatusOK = 200 \<and>
   UpdateBatch NewMemStorage [ex_gauge_no_value] = (None, NewMemStorage) \<and>
   GetGauge NewMemStorage ''g2'' = (0, False) \<and>
   UpdatesHandler (ex_handler_env [ex_gauge_no_value]) (PointOnly NewMemStorage)
      (New [recording_sink 0 None]) ex_request []
     = (HttpError ''gauge without value'' 400, PointOnly NewMemStorage, [])"
  by (simp add: UpdatesHandler_def ex_handler_env_def ex_request_def apply_batch_def
      UpdateBatch_def ex_gauge_no_value_def New_def Enabled_def Notify_def recording_clock_def
      recording_sink_def GetGauge_def NewMemStorage_def)

end
